theory Spec2Isabelle
  imports Complex_Main "HOL-Library.Monad_Syntax"
begin

section \<open>Modules of the tensor runtime\<close>

text \<open>
  The models handled by the repository are module objects of the tensor runtime.  They
  are objects with identity: two references may denote the same module, and two modules
  may share a sub-module or a parameter.  Of such objects the code under study reads and
  writes the \<open>training\<close> flag of a module and the \<open>requires_grad\<close> flag of a
  parameter.  So every module and every parameter has an identifier, and a heap holds,
  for each reference to a module, the module as a tree of identifiers (its own, those of
  its parameters, and its children), and for each identifier the flag of that module or
  parameter.  A module or a parameter that occurs in two trees is shared by them.
\<close>

datatype nn_module = Module (mid: nat) (own_params: "nat list") (children: "nn_module list")

record heap =
  objects :: "nat \<Rightarrow> nn_module"
  training :: "nat \<Rightarrow> bool"
  requires_grad :: "nat \<Rightarrow> bool"

text \<open>The modules of a tree, the root's first: the module itself and every sub-module.\<close>

fun module_ids :: "nn_module \<Rightarrow> nat list" where
  "module_ids (Module i ps cs) = i # concat (map module_ids cs)"


text \<open>
  \<open>Module.train(mode)\<close> as the runtime defines it: sets the flag of the module and,
  through the children's \<open>train\<close>, of every sub-module.  The argument \<open>a\<close> is the
  reference the method is called on.
\<close>

definition nn_train :: "bool \<Rightarrow> nat \<Rightarrow> heap \<Rightarrow> heap" where
  "nn_train mode a h =
     h\<lparr>training := (\<lambda>i. if i \<in> set (module_ids (objects h a)) then mode else training h i)\<rparr>"

text \<open>\<open>Module.eval()\<close> is \<open>train(False)\<close>.\<close>

definition nn_eval :: "nat \<Rightarrow> heap \<Rightarrow> heap" where
  "nn_eval a h = nn_train False a h"


section \<open>KDModule (kd\_module.py)\<close>

text \<open>
  \<open>KDOutput = namedtuple('KDOutput', 'student_output teacher_output')\<close>
\<close>

record ('a, 'b) KDOutput =
  student_output :: 'a
  teacher_output :: 'b



text \<open>
  The fields of a \<open>KDModule\<close>: \<open>self.student\<close> and \<open>self.teacher\<close> are references,
  which nothing keeps from denoting the same module.  No method assigns a field after
  \<open>__init__\<close>; the methods work on the heap.
\<close>

record KDModule =
  student :: nat
  teacher :: nat
  run_teacher_on_eval :: bool





text \<open>
  Calling a module on an input runs its \<open>forward\<close>, which belongs to the concrete
  architecture and is a parameter here: it sees the module (the reference and the heap)
  and the input, and either returns an output or raises (\<open>None\<close>).

  \<open>KDModule.forward(x)\<close> evaluates \<open>self.student(x)\<close>, then \<open>self.teacher(x)\<close>, and
  builds the named tuple; an exception of either call leaves \<open>forward\<close> without a result.
\<close>

definition kd_forward ::
  "(nat \<Rightarrow> heap \<Rightarrow> 'x \<Rightarrow> 'a option) \<Rightarrow> (nat \<Rightarrow> heap \<Rightarrow> 'x \<Rightarrow> 'b option) \<Rightarrow>
   KDModule \<Rightarrow> heap \<Rightarrow> 'x \<Rightarrow> ('a, 'b) KDOutput option" where
  "kd_forward student_fwd teacher_fwd kd h x =
     (case student_fwd (student kd) h x of
        None \<Rightarrow> None
      | Some so \<Rightarrow>
          (case teacher_fwd (teacher kd) h x of
             None \<Rightarrow> None
           | Some to \<Rightarrow> Some \<lparr>student_output = so, teacher_output = to\<rparr>))"













section \<open>Tensors of the runtime\<close>

text \<open>
  A tensor is its shape, its element type and its elements in row-major order.  The
  elements are real numbers: the rounding of the runtime's floating-point arithmetic is
  not part of the model.
\<close>

datatype dtype = float32 | float64 | int64

record tensor =
  shape :: "nat list"
  dtype :: dtype
  data :: "real list"

text \<open>\<open>torch.zeros(size, dtype=dt)\<close>\<close>

definition zeros :: "nat list \<Rightarrow> dtype \<Rightarrow> tensor" where
  "zeros sz dt = \<lparr>shape = sz, dtype = dt, data = replicate (prod_list sz) 0\<rparr>"

text \<open>
  \<open>np.array(arrays)\<close> of a list of arrays: the arrays stacked along a new first
  dimension.  Arrays of different shapes do not stack: the runtime raises, here or when
  the result is handed to \<open>torch.Tensor\<close>.  The empty list gives the empty array.
\<close>

definition np_array :: "tensor list \<Rightarrow> tensor option" where
  "np_array arrays =
     (case arrays of
        [] \<Rightarrow> Some \<lparr>shape = [0], dtype = float64, data = []\<rparr>
      | a # rest \<Rightarrow>
          if list_all (\<lambda>b. shape b = shape a) rest
          then Some \<lparr>shape = length arrays # shape a, dtype = dtype a, data = concat (map data arrays)\<rparr>
          else None)"

text \<open>\<open>torch.Tensor(array)\<close>: the \<open>float32\<close> tensor of the array's shape and elements.\<close>

definition torch_Tensor :: "tensor \<Rightarrow> tensor" where
  "torch_Tensor array = array\<lparr>dtype := float32\<rparr>"

section \<open>The inference pipeline (pipelines.py)\<close>

text \<open>
  The pipeline works with parts that live outside the class and are parameters here.
  The model is an object with its own methods: the pipeline reads its attribute
  \<open>training\<close> and calls its \<open>eval()\<close> and \<open>train(mode)\<close>, whatever the model's class
  makes of them, and applies it, which runs its \<open>forward\<close>.  The other parts are
  \<open>load_images\<close>, the image processor's \<open>preprocess_image\<close> and
  \<open>postprocess_predictions\<close>, and the \<open>post_prediction_callback\<close>.  Each of
  \<open>load_images\<close>, \<open>preprocess_image\<close>, \<open>forward\<close>, the callback and
  \<open>postprocess_predictions\<close> may raise, which is the result \<open>None\<close>.  The model's
  \<open>forward\<close> sees the model, the device of the model, whether gradients are recorded,
  and the batch with the device the batch is on.  A preprocessed image is an array.  The
  callback returns a list whose entries are tensors or Python's \<open>None\<close>.
\<close>

record ('inp, 'img, 'meta, 'out, 'res, 'dev, 'm) components =
  model_training :: "'m \<Rightarrow> bool"
  model_eval :: "'m \<Rightarrow> 'm"
  model_train :: "bool \<Rightarrow> 'm \<Rightarrow> 'm"
  load_images :: "'inp \<Rightarrow> 'img list option"
  preprocess_image :: "'img \<Rightarrow> (tensor \<times> 'meta) option"
  forward :: "'m \<Rightarrow> 'dev \<Rightarrow> bool \<Rightarrow> tensor \<times> 'dev \<Rightarrow> 'out option"
  post_prediction_callback :: "'out \<Rightarrow> 'dev \<Rightarrow> tensor option list option"
  postprocess_predictions :: "tensor \<Rightarrow> 'meta \<Rightarrow> 'res option"

text \<open>
  The calls the pipeline makes, in the order it makes them, with what each call sees:
  \<open>model.to(device)\<close>, \<open>load_images\<close>, \<open>preprocess_image\<close>, \<open>model.eval()\<close>, the
  application of the model, the callback, \<open>model.train(mode)\<close> and
  \<open>postprocess_predictions\<close>.
\<close>

datatype ('inp, 'img, 'meta, 'out, 'dev, 'm) event =
    ModelTo 'dev
  | LoadImages 'inp
  | PreprocessImage 'img
  | ModelEval
  | ModelCall 'm 'dev bool tensor 'dev
  | PostPredictionCallback 'out 'dev
  | ModelTrain bool
  | PostprocessPredictions tensor 'meta

text \<open>
  The state a pipeline call works on: the fields \<open>self.model\<close> (the model and the
  device it is on) and \<open>self.device\<close>, the runtime's gradient switch, and the calls made
  so far.
\<close>

record ('inp, 'img, 'meta, 'out, 'dev, 'm) pstate =
  model :: 'm
  model_device :: 'dev
  device :: 'dev
  grad_enabled :: bool
  calls :: "('inp, 'img, 'meta, 'out, 'dev, 'm) event list"

definition record_call ::
  "('inp, 'img, 'meta, 'out, 'dev, 'm) event \<Rightarrow> ('inp, 'img, 'meta, 'out, 'dev, 'm) pstate \<Rightarrow>
   ('inp, 'img, 'meta, 'out, 'dev, 'm) pstate" where
  "record_call e st = st\<lparr>calls := calls st @ [e]\<rparr>"

text \<open>
  \<open>Pipeline.__init__\<close>: \<open>self.model = model.to(device); self.device = device\<close>.
  The gradient switch is the runtime's, whatever it is when the pipeline is built.
\<close>

definition Pipeline_init ::
  "'m \<Rightarrow> 'dev \<Rightarrow> bool \<Rightarrow> ('inp, 'img, 'meta, 'out, 'dev, 'm) pstate" where
  "Pipeline_init m dev grad =
     \<lparr>model = m, model_device = dev, device = dev, grad_enabled = grad, calls = [ModelTo dev]\<rparr>"

text \<open>
  \<open>eval_mode\<close>, a generator-based context manager around \<open>body\<close>: it saves
  \<open>model.training\<close>, calls \<open>model.eval()\<close>, runs the body under \<open>torch.no_grad()\<close>
  and calls \<open>model.train(mode=_starting_mode)\<close>.  When the body raises, the exception
  passes through \<open>torch.no_grad()\<close>, which restores the gradient switch, and leaves the
  generator at its \<open>yield\<close>: the final \<open>model.train\<close> is not reached.
\<close>

definition eval_mode ::
  "('inp, 'img, 'meta, 'out, 'res, 'dev, 'm) components \<Rightarrow>
   (('inp, 'img, 'meta, 'out, 'dev, 'm) pstate \<Rightarrow> 'a option \<times> ('inp, 'img, 'meta, 'out, 'dev, 'm) pstate) \<Rightarrow>
   ('inp, 'img, 'meta, 'out, 'dev, 'm) pstate \<Rightarrow> 'a option \<times> ('inp, 'img, 'meta, 'out, 'dev, 'm) pstate" where
  "eval_mode env body st =
     (let starting_mode = model_training env (model st);
          st = record_call ModelEval st;
          st = st\<lparr>model := model_eval env (model st)\<rparr>;
          prev = grad_enabled st;
          st = st\<lparr>grad_enabled := False\<rparr>;
          (r, st) = body st;
          st = st\<lparr>grad_enabled := prev\<rparr>
      in case r of
           None \<Rightarrow> (None, st)
         | Some v \<Rightarrow>
             (let st = record_call (ModelTrain starting_mode) st
              in (Some v, st\<lparr>model := model_train env starting_mode (model st)\<rparr>)))"

text \<open>
  \<open>DetectionPipeline._decode_model_output\<close>: the callback, then every \<open>None\<close> entry
  replaced by \<open>torch.zeros((0, 6), dtype=torch.float32)\<close>.  The entries of the resulting
  Python list are kept as optional values, so that an entry \<open>None\<close> can be spoken of.
\<close>

definition decode_model_output ::
  "('inp, 'img, 'meta, 'out, 'res, 'dev, 'm) components \<Rightarrow> 'out \<Rightarrow>
   ('inp, 'img, 'meta, 'out, 'dev, 'm) pstate \<Rightarrow>
   tensor option list option \<times> ('inp, 'img, 'meta, 'out, 'dev, 'm) pstate" where
  "decode_model_output env model_output st =
     (let st = record_call (PostPredictionCallback model_output (device st)) st
      in case post_prediction_callback env model_output (device st) of
           None \<Rightarrow> (None, st)
         | Some decoded_predictions \<Rightarrow>
             (Some (map (\<lambda>decoded_prediction.
                      if decoded_prediction \<noteq> None then decoded_prediction
                      else Some (zeros [0, 6] float32)) decoded_predictions), st))"

text \<open>The preprocessing loop of \<open>_run\<close>, appending to the two lists.\<close>

fun preprocess_loop ::
  "('inp, 'img, 'meta, 'out, 'res, 'dev, 'm) components \<Rightarrow> 'img list \<Rightarrow> tensor list \<Rightarrow> 'meta list \<Rightarrow>
   ('inp, 'img, 'meta, 'out, 'dev, 'm) pstate \<Rightarrow>
   (tensor list \<times> 'meta list) option \<times> ('inp, 'img, 'meta, 'out, 'dev, 'm) pstate" where
  "preprocess_loop env [] preprocessed_images processing_metadatas st =
     (Some (preprocessed_images, processing_metadatas), st)"
| "preprocess_loop env (img # images) preprocessed_images processing_metadatas st =
     (let st = record_call (PreprocessImage img) st
      in case preprocess_image env img of
           None \<Rightarrow> (None, st)
         | Some (preprocessed_image, processing_metadata) \<Rightarrow>
             preprocess_loop env images (preprocessed_images @ [preprocessed_image])
               (processing_metadatas @ [processing_metadata]) st)"

text \<open>
  The body of \<open>with eval_mode(self.model)\<close>: the batch
  \<open>torch.Tensor(np.array(preprocessed_images)).to(self.device)\<close> is built, which
  raises when the images do not stack; the model is called on it; and its output is
  decoded.
\<close>

definition predict ::
  "('inp, 'img, 'meta, 'out, 'res, 'dev, 'm) components \<Rightarrow> tensor list \<Rightarrow>
   ('inp, 'img, 'meta, 'out, 'dev, 'm) pstate \<Rightarrow>
   tensor option list option \<times> ('inp, 'img, 'meta, 'out, 'dev, 'm) pstate" where
  "predict env preprocessed_images st =
     (case np_array preprocessed_images of
        None \<Rightarrow> (None, st)
      | Some array \<Rightarrow>
          (let torch_inputs = (torch_Tensor array, device st);
               st = record_call (ModelCall (model st) (model_device st) (grad_enabled st)
                                   (fst torch_inputs) (snd torch_inputs)) st
           in case forward env (model st) (model_device st) (grad_enabled st) torch_inputs of
                None \<Rightarrow> (None, st)
              | Some model_output \<Rightarrow> decode_model_output env model_output st))"

text \<open>
  The postprocessing loop of \<open>_run\<close> over \<open>zip(torch_predictions, processing_metadatas)\<close>.
  \<open>torch_prediction.detach().cpu().numpy()\<close> keeps shape and elements; on \<open>None\<close> it
  raises.
\<close>

fun postprocess_loop ::
  "('inp, 'img, 'meta, 'out, 'res, 'dev, 'm) components \<Rightarrow> (tensor option \<times> 'meta) list \<Rightarrow> 'res list \<Rightarrow>
   ('inp, 'img, 'meta, 'out, 'dev, 'm) pstate \<Rightarrow>
   'res list option \<times> ('inp, 'img, 'meta, 'out, 'dev, 'm) pstate" where
  "postprocess_loop env [] predictions st = (Some predictions, st)"
| "postprocess_loop env ((torch_prediction, processing_metadata) # rest) predictions st =
     (case torch_prediction of
        None \<Rightarrow> (None, st)
      | Some prediction \<Rightarrow>
          (let st = record_call (PostprocessPredictions prediction processing_metadata) st
           in case postprocess_predictions env prediction processing_metadata of
                None \<Rightarrow> (None, st)
              | Some prediction \<Rightarrow> postprocess_loop env rest (predictions @ [prediction]) st))"

text \<open>\<open>Pipeline._run\<close>\<close>

definition run ::
  "('inp, 'img, 'meta, 'out, 'res, 'dev, 'm) components \<Rightarrow> 'inp \<Rightarrow>
   ('inp, 'img, 'meta, 'out, 'dev, 'm) pstate \<Rightarrow>
   ('img list \<times> 'res list) option \<times> ('inp, 'img, 'meta, 'out, 'dev, 'm) pstate" where
  "run env images st =
     (let st = record_call (ModelTo (device st)) st;
          st = st\<lparr>model_device := device st\<rparr>;
          st = record_call (LoadImages images) st
      in case load_images env images of
           None \<Rightarrow> (None, st)
         | Some images \<Rightarrow>
             (case preprocess_loop env images [] [] st of
                (None, st) \<Rightarrow> (None, st)
              | (Some (preprocessed_images, processing_metadatas), st) \<Rightarrow>
                  (case eval_mode env (predict env preprocessed_images) st of
                     (None, st) \<Rightarrow> (None, st)
                   | (Some torch_predictions, st) \<Rightarrow>
                       (case postprocess_loop env (zip torch_predictions processing_metadatas) [] st of
                          (None, st) \<Rightarrow> (None, st)
                        | (Some predictions, st) \<Rightarrow> (Some (images, predictions), st)))))"

text \<open>
  \<open>DetectionResults\<close> is built from the images, the predictions and the class names; the
  record keeps these three constructor arguments.
\<close>

record ('img, 'res) DetectionResults =
  images :: "'img list"
  predictions :: "'res list"
  class_names :: "string list"

text \<open>\<open>DetectionPipeline.__call__\<close>\<close>

definition DetectionPipeline_call ::
  "('inp, 'img, 'meta, 'out, 'res, 'dev, 'm) components \<Rightarrow> string list \<Rightarrow> 'inp \<Rightarrow>
   ('inp, 'img, 'meta, 'out, 'dev, 'm) pstate \<Rightarrow>
   ('img, 'res) DetectionResults option \<times> ('inp, 'img, 'meta, 'out, 'dev, 'm) pstate" where
  "DetectionPipeline_call env names inp st =
     (case run env inp st of
        (None, st) \<Rightarrow> (None, st)
      | (Some (imgs, preds), st) \<Rightarrow>
          (Some \<lparr>images = imgs, predictions = preds, class_names = names\<rparr>, st))"

text \<open>The pipeline after a number of calls, one per input of the list.\<close>

definition run_many ::
  "('inp, 'img, 'meta, 'out, 'res, 'dev, 'm) components \<Rightarrow> 'inp list \<Rightarrow>
   ('inp, 'img, 'meta, 'out, 'dev, 'm) pstate \<Rightarrow> ('inp, 'img, 'meta, 'out, 'dev, 'm) pstate" where
  "run_many env inps st = foldl (\<lambda>st inp. snd (run env inp st)) st inps"

text \<open>The tensor that stands for an entry of the decoded list.\<close>

abbreviation or_empty :: "tensor option \<Rightarrow> tensor" where
  "or_empty d \<equiv> (case d of None \<Rightarrow> zeros [0, 6] float32 | Some t \<Rightarrow> t)"




section \<open>Tensor operations of the runtime\<close>

text \<open>
  The operations the detection head uses, as the runtime documents them, on tensors kept
  in row-major order.  An operation that the runtime refuses (a shape that does not fit,
  a dimension out of range) raises, which is the result \<open>None\<close>.
\<close>

text \<open>The position of an index in the row-major data, and the index at a position.\<close>

fun ravel :: "nat list \<Rightarrow> nat list \<Rightarrow> nat" where
  "ravel (s # ss) (i # idx) = i * prod_list ss + ravel ss idx"
| "ravel _ _ = 0"

fun unravel :: "nat list \<Rightarrow> nat \<Rightarrow> nat list" where
  "unravel [] n = []"
| "unravel (s # ss) n = (n div prod_list ss) # unravel ss (n mod prod_list ss)"

text \<open>An index is in range of a shape when it has its rank and every entry is below the size.\<close>

definition in_range :: "nat list \<Rightarrow> nat list \<Rightarrow> bool" where
  "in_range shp idx = list_all2 (<) idx shp"

text \<open>A tensor holds as many elements as its shape says.\<close>

definition wf :: "tensor \<Rightarrow> bool" where
  "wf t = (length (data t) = prod_list (shape t))"

text \<open>The element at an index, \<open>t[i, j, ...]\<close>.\<close>

definition get :: "tensor \<Rightarrow> nat list \<Rightarrow> real" where
  "get t idx = data t ! ravel (shape t) idx"

text \<open>The tensor of a given shape whose element at each index is given by a function.\<close>

definition tabulate :: "nat list \<Rightarrow> dtype \<Rightarrow> (nat list \<Rightarrow> real) \<Rightarrow> tensor" where
  "tabulate shp dt f =
     \<lparr>shape = shp, dtype = dt, data = map (\<lambda>n. f (unravel shp n)) [0..<prod_list shp]\<rparr>"


text \<open>
  \<open>torch.linspace(start, stop, steps)\<close>: \<open>steps\<close> points from \<open>start\<close> to \<open>stop\<close>
  at equal distances; a single point is \<open>start\<close>.
\<close>

definition linspace :: "real \<Rightarrow> real \<Rightarrow> nat \<Rightarrow> tensor" where
  "linspace start stop steps =
     \<lparr>shape = [steps], dtype = float32,
      data = map (\<lambda>i. if steps = 1 then start
                       else start + real i * ((stop - start) / real (steps - 1))) [0..<steps]\<rparr>"

text \<open>
  \<open>t.reshape(shp)\<close>: the same elements in the same order under a new shape with as
  many elements.  One entry of \<open>shp\<close> may be \<open>-1\<close> and is then inferred, which the
  runtime refuses when the other entries multiply to zero.
\<close>

definition infer_shape :: "nat \<Rightarrow> int list \<Rightarrow> nat list option" where
  "infer_shape numel shp =
     (let known = prod_list (map nat (filter (\<lambda>d. d \<noteq> - 1) shp));
          unknown = length (filter (\<lambda>d. d = - 1) shp)
      in if list_ex (\<lambda>d. d < - 1) shp then None
         else if unknown = 0 then (if known = numel then Some (map nat shp) else None)
         else if unknown = 1 then
           (if known \<noteq> 0 \<and> numel mod known = 0
            then Some (map (\<lambda>d. if d = - 1 then numel div known else nat d) shp)
            else None)
         else None)"

definition reshape :: "tensor \<Rightarrow> int list \<Rightarrow> tensor option" where
  "reshape t shp =
     (case infer_shape (length (data t)) shp of
        None \<Rightarrow> None
      | Some s \<Rightarrow> Some (t\<lparr>shape := s\<rparr>))"


text \<open>
  \<open>torch.permute(t, dims)\<close>: dimension \<open>k\<close> of the result is dimension \<open>dims[k]\<close> of
  \<open>t\<close>, so the element at an index of the result is the element of \<open>t\<close> at the index
  whose entry \<open>dims[k]\<close> is the \<open>k\<close>-th entry of the given one.
\<close>

fun index_of :: "nat list \<Rightarrow> nat \<Rightarrow> nat" where
  "index_of [] d = 0"
| "index_of (x # xs) d = (if x = d then 0 else Suc (index_of xs d))"

definition permute :: "tensor \<Rightarrow> nat list \<Rightarrow> tensor option" where
  "permute t dims =
     (if sort dims = [0..<length (shape t)]
      then Some (tabulate (map (\<lambda>d. shape t ! d) dims) (dtype t)
                   (\<lambda>idx. get t (map (\<lambda>d. idx ! index_of dims d) [0..<length dims])))
      else None)"

text \<open>
  \<open>torch.nn.functional.softmax(t, dim=d)\<close>: every element becomes its exponential
  divided by the sum of the exponentials along dimension \<open>d\<close>.
\<close>

definition softmax :: "tensor \<Rightarrow> nat \<Rightarrow> tensor option" where
  "softmax t d =
     (if d < length (shape t)
      then Some (tabulate (shape t) (dtype t)
                   (\<lambda>idx. exp (get t idx) / (\<Sum>k\<leftarrow>[0..<shape t ! d]. exp (get t (idx[d := k])))))
      else None)"

text \<open>
  \<open>torch.nn.functional.conv2d(input, weight)\<close> with the defaults: no bias, stride one,
  no padding, one group.  The input is \<open>[N, C, H, W]\<close>, the weight \<open>[O, C, kH, kW]\<close>.
\<close>

definition conv2d :: "tensor \<Rightarrow> tensor \<Rightarrow> tensor option" where
  "conv2d inp weight =
     (if length (shape inp) = 4 \<and> length (shape weight) = 4 \<and>
         shape weight ! 1 = shape inp ! 1 \<and>
         0 < shape weight ! 2 \<and> shape weight ! 2 \<le> shape inp ! 2 \<and>
         0 < shape weight ! 3 \<and> shape weight ! 3 \<le> shape inp ! 3
      then Some (tabulate
             [shape inp ! 0, shape weight ! 0,
              shape inp ! 2 - shape weight ! 2 + 1, shape inp ! 3 - shape weight ! 3 + 1]
             (dtype inp)
             (\<lambda>idx. \<Sum>c\<leftarrow>[0..<shape inp ! 1]. \<Sum>ky\<leftarrow>[0..<shape weight ! 2]. \<Sum>kx\<leftarrow>[0..<shape weight ! 3].
                       get inp [idx ! 0, c, idx ! 2 + ky, idx ! 3 + kx] * get weight [idx ! 1, c, ky, kx]))
      else None)"

text \<open>\<open>t.squeeze(d)\<close>: dimension \<open>d\<close> is dropped when its size is one.\<close>

definition squeeze :: "tensor \<Rightarrow> nat \<Rightarrow> tensor option" where
  "squeeze t d =
     (if d < length (shape t)
      then Some (if shape t ! d = 1 then t\<lparr>shape := take d (shape t) @ drop (Suc d) (shape t)\<rparr> else t)
      else None)"








text \<open>
  The decoding of one distribution in the words of the specification: the softmax of the
  logits of the bins, and the expected bin index under it, the sum over the bins \<open>j\<close>
  of \<open>j\<close> times the softmax at \<open>j\<close>.
\<close>

definition softmax_list :: "real list \<Rightarrow> real list" where
  "softmax_list logits = map (\<lambda>x. exp x / sum_list (map exp logits)) logits"

definition expected_bin :: "real list \<Rightarrow> real" where
  "expected_bin logits = (\<Sum>j\<leftarrow>[0..<length logits]. real j * softmax_list logits ! j)"

section \<open>NDFLHeads (dfl\_heads.py)\<close>

text \<open>
  The fields of the head that \<open>forward_eval\<close> and the anchor cache use.  The attributes
  \<open>anchor_points\<close> and \<open>stride_tensor\<close> exist only once they have been assigned.
\<close>

record NDFLHeads =
  num_classes :: nat
  fpn_strides :: "nat list"
  grid_cell_scale :: real
  grid_cell_offset :: real
  reg_max :: nat
  eval_size :: "(nat \<times> nat) option"
  proj_conv :: tensor
  anchor_points :: "tensor option"
  stride_tensor :: "tensor option"

text \<open>
  Three functions are defined outside the files at hand and are parameters:
  \<open>_generate_anchors\<close>, inherited by the head, which reads the head's fields and either
  the feature maps or, without them, \<open>eval_size\<close>, and returns anchor points and stride
  tensor; \<open>batch_distance2bbox\<close>; and \<open>generate_anchors_for_grid_cell\<close>, whose result
  is passed on as it is.  The heads \<open>head1\<close>, \<open>head2\<close>, ... are built by a factory and
  are parameters, too: each maps a feature map to regression output and class logits.
\<close>

type_synonym anchor_generator = "NDFLHeads \<Rightarrow> tensor list option \<Rightarrow> (tensor \<times> tensor) option"

text \<open>\<open>_init_weights\<close>\<close>

definition init_weights :: "anchor_generator \<Rightarrow> NDFLHeads \<Rightarrow> NDFLHeads option" where
  "init_weights generate_anchors self =
     (if eval_size self \<noteq> None
      then (case generate_anchors self None of
              None \<Rightarrow> None
            | Some (ap, st) \<Rightarrow> Some (self\<lparr>anchor_points := Some ap, stride_tensor := Some st\<rparr>))
      else Some self)"

text \<open>\<open>cache_anchors(input_size)\<close>\<close>

definition cache_anchors :: "anchor_generator \<Rightarrow> nat \<times> nat \<Rightarrow> NDFLHeads \<Rightarrow> NDFLHeads option" where
  "cache_anchors generate_anchors input_size self =
     (let self = self\<lparr>eval_size := Some input_size\<rparr>
      in case generate_anchors self None of
           None \<Rightarrow> None
         | Some (ap, st) \<Rightarrow> Some (self\<lparr>anchor_points := Some ap, stride_tensor := Some st\<rparr>))"

text \<open>
  \<open>NDFLHeads.__init__\<close>, up to the construction of the heads: the fields, the buffer
  \<open>proj_conv\<close> and \<open>_init_weights\<close>.
\<close>

definition NDFLHeads_init ::
  "anchor_generator \<Rightarrow> nat \<Rightarrow> nat list \<Rightarrow> real \<Rightarrow> real \<Rightarrow> nat \<Rightarrow> (nat \<times> nat) option \<Rightarrow> NDFLHeads option" where
  "NDFLHeads_init generate_anchors n_classes strides cell_scale cell_offset rmax esize =
     (case reshape (linspace 0 (real rmax) (rmax + 1)) [1, int (rmax + 1), 1, 1] of
        None \<Rightarrow> None
      | Some proj \<Rightarrow>
          init_weights generate_anchors
            \<lparr>num_classes = n_classes, fpn_strides = strides, grid_cell_scale = cell_scale,
             grid_cell_offset = cell_offset, reg_max = rmax, eval_size = esize,
             proj_conv = proj, anchor_points = None, stride_tensor = None\<rparr>)"

text \<open>A head after construction and a number of calls of \<open>cache_anchors\<close>.\<close>

fun cache_anchors_many :: "anchor_generator \<Rightarrow> (nat \<times> nat) list \<Rightarrow> NDFLHeads \<Rightarrow> NDFLHeads option" where
  "cache_anchors_many generate_anchors [] self = Some self"
| "cache_anchors_many generate_anchors (input_size # sizes) self =
     (case cache_anchors generate_anchors input_size self of
        None \<Rightarrow> None
      | Some self \<Rightarrow> cache_anchors_many generate_anchors sizes self)"

text \<open>
  The reduction of one regression output in the loop of \<open>forward_eval\<close>:
  \<open>reshape([-1, 4, reg_max + 1, h * w])\<close>, \<open>permute([0, 2, 3, 1])\<close>, \<open>softmax(dim=1)\<close>,
  \<open>conv2d(weight=proj_conv)\<close>, \<open>squeeze(1)\<close>.
\<close>

definition reduce_distribution :: "NDFLHeads \<Rightarrow> nat \<Rightarrow> tensor \<Rightarrow> tensor option" where
  "reduce_distribution self height_mul_width reg_distri =
     do {
       reg_dist_reduced \<leftarrow> reshape reg_distri [- 1, 4, int (reg_max self + 1), int height_mul_width];
       reg_dist_reduced \<leftarrow> permute reg_dist_reduced [0, 2, 3, 1];
       probabilities \<leftarrow> softmax reg_dist_reduced 1;
       reg_dist_reduced \<leftarrow> conv2d probabilities (proj_conv self);
       squeeze reg_dist_reduced 1
     }"




text \<open>
  The number of anchors of a feature map \<open>[B, C, H, W]\<close> is \<open>H * W\<close>.  A head's output
  has the shapes the head is built for when, on such a feature map, the regression output
  is \<open>[B, 4 * (reg_max + 1), H, W]\<close> and the class logits are \<open>[B, num_classes, H, W]\<close>.
\<close>

definition anchors_of :: "tensor \<Rightarrow> nat" where
  "anchors_of feat = shape feat ! 2 * shape feat ! 3"



definition flat_distributions :: "nat \<Rightarrow> nat \<Rightarrow> tensor list \<Rightarrow> tensor list \<Rightarrow> tensor list" where
  "flat_distributions B R regs feats =
     map2 (\<lambda>reg feat. tabulate [B, anchors_of feat, 4 * (R + 1)] (dtype reg)
             (\<lambda>idx. get (reg\<lparr>shape := [B, 4 * (R + 1), anchors_of feat]\<rparr>) [idx ! 0, idx ! 2, idx ! 1]))
       regs feats"



section \<open>Concrete inputs\<close>





text \<open>
  A pipeline over images that are numbers: preprocessing yields the one-element array of
  \<open>i + 1\<close> with metadata \<open>2 * i\<close>, the model is nothing but its training flag and
  returns the number of images of the batch, the callback finds nothing in the first
  image and one box in the second.  The model is not on the pipeline's device.
\<close>

abbreviation example_components ::
  "(nat list, nat, nat, nat, nat list \<times> nat, nat, bool) components" where
  "example_components \<equiv>
     \<lparr>model_training = (\<lambda>m. m),
      model_eval = (\<lambda>m. False),
      model_train = (\<lambda>mode m. mode),
      load_images = (\<lambda>xs. Some xs),
      preprocess_image = (\<lambda>i. Some (\<lparr>shape = [1], dtype = float64, data = [real i + 1]\<rparr>, 2 * i)),
      forward = (\<lambda>m d g b. Some (hd (shape (fst b)))),
      post_prediction_callback =
        (\<lambda>n d. Some [None, Some \<lparr>shape = [1, 6], dtype = float32, data = [0, 0, 4, 4, 1, 3]\<rparr>]),
      postprocess_predictions = (\<lambda>t m. Some (shape t, m))\<rparr>"

abbreviation example_state :: "(nat list, nat, nat, nat, nat, bool) pstate" where
  "example_state \<equiv>
     \<lparr>model = True, model_device = 0, device = 1, grad_enabled = True, calls = []\<rparr>"

text \<open>The same pipeline with a callback that returns one entry whatever the batch.\<close>

abbreviation short_components ::
  "(nat list, nat, nat, nat, nat list \<times> nat, nat, bool) components" where
  "short_components \<equiv> example_components\<lparr>post_prediction_callback := (\<lambda>n d. Some [None])\<rparr>"














section \<open>Properties\<close>

subsection \<open>KDModule\<close>

lemma objects_nn_train [simp]: "objects (nn_train mode a h) = objects h"
  by (simp add: nn_train_def)

lemma requires_grad_nn_train [simp]: "requires_grad (nn_train mode a h) = requires_grad h"
  by (simp add: nn_train_def)

lemma objects_nn_eval [simp]: "objects (nn_eval a h) = objects h"
  by (simp add: nn_eval_def)

lemma requires_grad_nn_eval [simp]: "requires_grad (nn_eval a h) = requires_grad h"
  by (simp add: nn_eval_def)

lemma training_nn_train_in:
  "i \<in> set (module_ids (objects h a)) \<Longrightarrow> training (nn_train mode a h) i = mode"
  by (simp add: nn_train_def)

lemma training_nn_train_out:
  "i \<notin> set (module_ids (objects h a)) \<Longrightarrow> training (nn_train mode a h) i = training h i"
  by (simp add: nn_train_def)

















text \<open>
  Claim C5.  \<open>KDModule.forward(x)\<close> returns a \<open>KDOutput\<close> exactly when both
  sub-models return on \<open>x\<close>, and then its field \<open>student_output\<close> is the student's
  output on \<open>x\<close> and its field \<open>teacher_output\<close> the teacher's output on the same \<open>x\<close>,
  both unaltered.
\<close>

theorem kd_forward_output:
  "kd_forward student_fwd teacher_fwd kd h x = Some out \<longleftrightarrow>
   student_fwd (student kd) h x = Some (student_output out) \<and>
   teacher_fwd (teacher kd) h x = Some (teacher_output out)"
  by (cases out) (auto simp: kd_forward_def split: option.splits)

subsection \<open>The inference pipeline\<close>

lemma record_call_simps [simp]:
  "model (record_call e st) = model st"
  "model_device (record_call e st) = model_device st"
  "device (record_call e st) = device st"
  "grad_enabled (record_call e st) = grad_enabled st"
  "calls (record_call e st) = calls st @ [e]"
  by (simp_all add: record_call_def)

lemma preprocess_loop_effect:
  "\<exists>k. snd (preprocess_loop env imgs ps ms st) =
         st\<lparr>calls := calls st @ map PreprocessImage (take k imgs)\<rparr>"
proof (induction imgs arbitrary: ps ms st)
  case Nil
  then show ?case by simp
next
  case (Cons img imgs)
  show ?case
  proof (cases "preprocess_image env img")
    case None
    then have "snd (preprocess_loop env (img # imgs) ps ms st) =
        st\<lparr>calls := calls st @ map PreprocessImage (take 1 (img # imgs))\<rparr>"
      by (simp add: record_call_def)
    then show ?thesis by blast
  next
    case (Some pm)
    obtain p m where pm: "pm = (p, m)" by (cases pm)
    from Cons.IH [of "ps @ [p]" "ms @ [m]" "record_call (PreprocessImage img) st"]
    obtain k where "snd (preprocess_loop env imgs (ps @ [p]) (ms @ [m]) (record_call (PreprocessImage img) st)) =
        (record_call (PreprocessImage img) st)\<lparr>calls := calls (record_call (PreprocessImage img) st) @ map PreprocessImage (take k imgs)\<rparr>"
      by blast
    with Some pm have "snd (preprocess_loop env (img # imgs) ps ms st) =
        st\<lparr>calls := calls st @ map PreprocessImage (take (Suc k) (img # imgs))\<rparr>"
      by (simp add: record_call_def)
    then show ?thesis by blast
  qed
qed

lemma postprocess_loop_effect:
  "\<exists>k. snd (postprocess_loop env zs acc st) =
         st\<lparr>calls := calls st @ map (\<lambda>(t, m). PostprocessPredictions (the t) m) (take k zs)\<rparr>"
proof (induction zs arbitrary: acc st)
  case Nil
  then show ?case by simp
next
  case (Cons z zs)
  obtain t m where z: "z = (t, m)" by (cases z)
  show ?case
  proof (cases t)
    case None
    with z have "snd (postprocess_loop env (z # zs) acc st) =
        st\<lparr>calls := calls st @ map (\<lambda>(t, m). PostprocessPredictions (the t) m) (take 0 (z # zs))\<rparr>"
      by simp
    then show ?thesis by blast
  next
    case (Some a)
    show ?thesis
    proof (cases "postprocess_predictions env a m")
      case None
      with z Some have "snd (postprocess_loop env (z # zs) acc st) =
          st\<lparr>calls := calls st @ map (\<lambda>(t, m). PostprocessPredictions (the t) m) (take 1 (z # zs))\<rparr>"
        by (simp add: record_call_def)
      then show ?thesis by blast
    next
      case (Some r)
      from Cons.IH [of "acc @ [r]" "record_call (PostprocessPredictions a m) st"]
      obtain k where "snd (postprocess_loop env zs (acc @ [r]) (record_call (PostprocessPredictions a m) st)) =
          (record_call (PostprocessPredictions a m) st)\<lparr>calls := calls (record_call (PostprocessPredictions a m) st) @
             map (\<lambda>(t, m). PostprocessPredictions (the t) m) (take k zs)\<rparr>"
        by blast
      with Some \<open>t = Some a\<close> z have "snd (postprocess_loop env (z # zs) acc st) =
          st\<lparr>calls := calls st @ map (\<lambda>(t, m). PostprocessPredictions (the t) m) (take (Suc k) (z # zs))\<rparr>"
        by (simp add: record_call_def)
      then show ?thesis by blast
    qed
  qed
qed

lemma decode_model_output_snd:
  "snd (decode_model_output env out st) = record_call (PostPredictionCallback out (device st)) st"
  by (simp add: decode_model_output_def Let_def split: option.splits)

lemma predict_snd:
  "\<exists>new. snd (predict env pres st) = st\<lparr>calls := calls st @ new\<rparr> \<and>
      (\<forall>d. ModelTo d \<notin> set new) \<and> ModelEval \<notin> set new \<and> (\<forall>f. ModelTrain f \<notin> set new) \<and>
      (\<forall>m md g b bd. ModelCall m md g b bd \<in> set new \<longrightarrow>
          m = model st \<and> md = model_device st \<and> g = grad_enabled st \<and> bd = device st)"
proof (cases "np_array pres")
  case None
  then have "snd (predict env pres st) = st\<lparr>calls := calls st @ []\<rparr>"
    by (simp add: predict_def)
  then show ?thesis by (intro exI [of _ "[]"]) simp
next
  case (Some arr)
  let ?c = "ModelCall (model st) (model_device st) (grad_enabled st) (torch_Tensor arr) (device st)"
  show ?thesis
  proof (cases "forward env (model st) (model_device st) (grad_enabled st) (torch_Tensor arr, device st)")
    case None
    with Some have "snd (predict env pres st) = st\<lparr>calls := calls st @ [?c]\<rparr>"
      by (simp add: predict_def Let_def record_call_def)
    then show ?thesis by (intro exI [of _ "[?c]"]) simp
  next
    case (Some out)
    with \<open>np_array pres = Some arr\<close>
    have "snd (predict env pres st) =
        st\<lparr>calls := calls st @ [?c, PostPredictionCallback out (device st)]\<rparr>"
      by (simp add: predict_def Let_def decode_model_output_snd record_call_def)
    then show ?thesis by (intro exI [of _ "[?c, PostPredictionCallback out (device st)]"]) simp
  qed
qed

lemma eval_mode_predict_effect:
  "\<exists>new m'. snd (eval_mode env (predict env pres) st) =
      st\<lparr>model := m', calls := calls st @ ModelEval # new\<rparr> \<and>
      (\<forall>d. ModelTo d \<notin> set new) \<and>
      (\<forall>m md g b bd. ModelCall m md g b bd \<in> set new \<longrightarrow>
          m = model_eval env (model st) \<and> md = model_device st \<and> \<not> g \<and> bd = device st) \<and>
      (fst (eval_mode env (predict env pres) st) \<noteq> None \<longrightarrow>
         m' = model_train env (model_training env (model st)) (model_eval env (model st)))"
proof -
  let ?st1 = "(record_call ModelEval st)\<lparr>model := model_eval env (model st), grad_enabled := False\<rparr>"
  obtain new where new: "snd (predict env pres ?st1) = ?st1\<lparr>calls := calls ?st1 @ new\<rparr>"
      "\<forall>d. ModelTo d \<notin> set new" "\<forall>f. ModelTrain f \<notin> set new"
      "\<forall>m md g b bd. ModelCall m md g b bd \<in> set new \<longrightarrow>
          m = model ?st1 \<and> md = model_device ?st1 \<and> g = grad_enabled ?st1 \<and> bd = device ?st1"
    using predict_snd [of env pres ?st1] by blast
  have "m = model_eval env (model st) \<and> md = model_device st \<and> \<not> g \<and> bd = device st"
    if "ModelCall m md g b bd \<in> set new" for m md g b bd
    using new(4) [rule_format, OF that] by simp
  then have mc: "\<forall>m md g b bd. ModelCall m md g b bd \<in> set new \<longrightarrow>
          m = model_eval env (model st) \<and> md = model_device st \<and> \<not> g \<and> bd = device st"
    by blast
  obtain r st2 where p: "predict env pres ?st1 = (r, st2)" by (cases "predict env pres ?st1")
  with new(1) have st2: "st2 = ?st1\<lparr>calls := calls st @ ModelEval # new\<rparr>"
    by simp
  show ?thesis
  proof (cases r)
    case None
    with p st2 have "snd (eval_mode env (predict env pres) st) =
        st\<lparr>model := model_eval env (model st), calls := calls st @ ModelEval # new\<rparr>"
      "fst (eval_mode env (predict env pres) st) = None"
      by (simp_all add: eval_mode_def Let_def record_call_def)
    with new(2) mc show ?thesis by blast
  next
    case (Some v)
    let ?sm = "model_training env (model st)"
    let ?n = "new @ [ModelTrain ?sm]"
    from Some p st2 have "snd (eval_mode env (predict env pres) st) =
        st\<lparr>model := model_train env ?sm (model_eval env (model st)),
           calls := calls st @ ModelEval # ?n\<rparr>"
      by (simp add: eval_mode_def Let_def record_call_def)
    moreover have "\<forall>d. ModelTo d \<notin> set ?n" using new(2) by simp
    moreover have "m = model_eval env (model st) \<and> md = model_device st \<and> \<not> g \<and> bd = device st"
      if c: "ModelCall m md g b bd \<in> set ?n" for m md g b bd
    proof -
      from c have "ModelCall m md g b bd \<in> set new" by simp
      from mc [rule_format, OF this] show ?thesis .
    qed
    ultimately show ?thesis by blast
  qed
qed

lemma run_effect:
  "\<exists>new m'. snd (run env inp st) =
      st\<lparr>model := m', model_device := device st, calls := calls st @ ModelTo (device st) # new\<rparr> \<and>
      (\<forall>d. ModelTo d \<notin> set new) \<and>
      (\<forall>m md g b bd. ModelCall m md g b bd \<in> set new \<longrightarrow>
          m = model_eval env (model st) \<and> md = device st \<and> \<not> g \<and> bd = device st) \<and>
      (fst (run env inp st) \<noteq> None \<longrightarrow>
         m' = model_train env (model_training env (model st)) (model_eval env (model st)))"
proof -
  let ?P = "\<lambda>new. (\<forall>d. ModelTo d \<notin> set new) \<and>
      (\<forall>m md g b bd. ModelCall m md g b bd \<in> set new \<longrightarrow>
          m = model_eval env (model st) \<and> md = device st \<and> \<not> g \<and> bd = device st)"
  let ?st0 = "record_call (LoadImages inp) ((record_call (ModelTo (device st)) st)\<lparr>model_device := device st\<rparr>)"
  have st0: "?st0 = st\<lparr>model := model st, model_device := device st,
      calls := calls st @ ModelTo (device st) # [LoadImages inp]\<rparr>"
    by (simp add: record_call_def)
  show ?thesis
  proof (cases "load_images env inp")
    case None
    then have "snd (run env inp st) = ?st0" "fst (run env inp st) = None"
      by (simp_all add: run_def Let_def)
    with st0 have "snd (run env inp st) = st\<lparr>model := model st, model_device := device st,
          calls := calls st @ ModelTo (device st) # [LoadImages inp]\<rparr>"
      "?P [LoadImages inp]"
      "fst (run env inp st) \<noteq> None \<longrightarrow>
         model st = model_train env (model_training env (model st)) (model_eval env (model st))"
      by simp_all
    then show ?thesis by blast
  next
    case (Some imgs)
    obtain k where k: "snd (preprocess_loop env imgs [] [] ?st0) =
         ?st0\<lparr>calls := calls ?st0 @ map PreprocessImage (take k imgs)\<rparr>"
      using preprocess_loop_effect by blast
    let ?n1 = "[LoadImages inp] @ map PreprocessImage (take k imgs)"
    obtain r1 st1 where p1: "preprocess_loop env imgs [] [] ?st0 = (r1, st1)"
      by (cases "preprocess_loop env imgs [] [] ?st0")
    with k have st1: "st1 = st\<lparr>model := model st, model_device := device st,
        calls := calls st @ ModelTo (device st) # ?n1\<rparr>"
      by (simp add: record_call_def)
    have n1: "?P ?n1" by auto
    show ?thesis
    proof (cases r1)
      case None
      with Some p1 have "snd (run env inp st) = st1" "fst (run env inp st) = None"
        by (simp_all add: run_def Let_def)
      with st1 have "snd (run env inp st) = st\<lparr>model := model st, model_device := device st,
            calls := calls st @ ModelTo (device st) # ?n1\<rparr>"
        "fst (run env inp st) \<noteq> None \<longrightarrow>
           model st = model_train env (model_training env (model st)) (model_eval env (model st))"
        by simp_all
      with n1 show ?thesis by blast
    next
      case r1: (Some pm)
      obtain pres metas where pm: "pm = (pres, metas)" by (cases pm)
      obtain new2 m2 where e2: "snd (eval_mode env (predict env pres) st1) =
          st1\<lparr>model := m2, calls := calls st1 @ ModelEval # new2\<rparr>"
        "\<forall>d. ModelTo d \<notin> set new2"
        "\<forall>m md g b bd. ModelCall m md g b bd \<in> set new2 \<longrightarrow>
          m = model_eval env (model st1) \<and> md = model_device st1 \<and> \<not> g \<and> bd = device st1"
        "fst (eval_mode env (predict env pres) st1) \<noteq> None \<longrightarrow>
           m2 = model_train env (model_training env (model st1)) (model_eval env (model st1))"
        using eval_mode_predict_effect [of env pres st1] by blast
      obtain r2 st2 where p2: "eval_mode env (predict env pres) st1 = (r2, st2)"
        by (cases "eval_mode env (predict env pres) st1")
      let ?n2 = "?n1 @ ModelEval # new2"
      from e2(1) p2 st1 have st2: "st2 = st\<lparr>model := m2, model_device := device st,
          calls := calls st @ ModelTo (device st) # ?n2\<rparr>"
        by simp
      have "m = model_eval env (model st) \<and> md = device st \<and> \<not> g \<and> bd = device st"
        if "ModelCall m md g b bd \<in> set new2" for m md g b bd
        using e2(3) [rule_format, OF that] by (simp add: st1)
      then have mc2: "\<forall>m md g b bd. ModelCall m md g b bd \<in> set new2 \<longrightarrow>
          m = model_eval env (model st) \<and> md = device st \<and> \<not> g \<and> bd = device st"
        by blast
      have n2a: "ModelTo d \<notin> set ?n2" for d using e2(2) by auto
      have n2b: "m = model_eval env (model st) \<and> md = device st \<and> \<not> g \<and> bd = device st"
        if c: "ModelCall m md g b bd \<in> set ?n2" for m md g b bd
      proof -
        from c have "ModelCall m md g b bd \<in> set new2" by auto
        from mc2 [rule_format, OF this] show ?thesis .
      qed
      from n2a n2b have n2: "?P ?n2" by blast
      show ?thesis
      proof (cases r2)
        case None
        with Some p1 r1 pm p2 have "snd (run env inp st) = st2" "fst (run env inp st) = None"
          by (simp_all add: run_def Let_def)
        with st2 have "snd (run env inp st) = st\<lparr>model := m2, model_device := device st,
              calls := calls st @ ModelTo (device st) # ?n2\<rparr>"
          "fst (run env inp st) \<noteq> None \<longrightarrow>
             m2 = model_train env (model_training env (model st)) (model_eval env (model st))"
          by simp_all
        with n2 show ?thesis by blast
      next
        case r2: (Some tps)
        with e2(4) p2 st1 have m2: "m2 = model_train env (model_training env (model st)) (model_eval env (model st))"
          by simp
        obtain k3 where k3: "snd (postprocess_loop env (zip tps metas) [] st2) =
            st2\<lparr>calls := calls st2 @ map (\<lambda>(t, m). PostprocessPredictions (the t) m) (take k3 (zip tps metas))\<rparr>"
          using postprocess_loop_effect by blast
        let ?n3 = "?n2 @ map (\<lambda>(t, m). PostprocessPredictions (the t) m) (take k3 (zip tps metas))"
        obtain r3 st3 where p3: "postprocess_loop env (zip tps metas) [] st2 = (r3, st3)"
          by (cases "postprocess_loop env (zip tps metas) [] st2")
        with k3 st2 have st3: "st3 = st\<lparr>model := m2, model_device := device st,
            calls := calls st @ ModelTo (device st) # ?n3\<rparr>"
          by simp
        have n3a: "ModelTo d \<notin> set ?n3" for d using e2(2) by auto
        have n3b: "m = model_eval env (model st) \<and> md = device st \<and> \<not> g \<and> bd = device st"
          if c: "ModelCall m md g b bd \<in> set ?n3" for m md g b bd
        proof -
          from c have "ModelCall m md g b bd \<in> set new2" by auto
          from mc2 [rule_format, OF this] show ?thesis .
        qed
        from n3a n3b have n3: "?P ?n3" by blast
        from Some p1 r1 pm p2 r2 p3 have "snd (run env inp st) = st3"
          by (cases r3) (simp_all add: run_def Let_def)
        with st3 m2 have "snd (run env inp st) = st\<lparr>model := m2, model_device := device st,
              calls := calls st @ ModelTo (device st) # ?n3\<rparr>"
          "fst (run env inp st) \<noteq> None \<longrightarrow>
             m2 = model_train env (model_training env (model st)) (model_eval env (model st))"
          by simp_all
        with n3 show ?thesis by blast
      qed
    qed
  qed
qed

lemma preprocess_loop_ok:
  "map (preprocess_image env) imgs = map Some (zip pres metas) \<Longrightarrow> length pres = length metas \<Longrightarrow>
   preprocess_loop env imgs ps ms st =
     (Some (ps @ pres, ms @ metas), st\<lparr>calls := calls st @ map PreprocessImage imgs\<rparr>)"
proof (induction imgs arbitrary: pres metas ps ms st)
  case Nil
  then show ?case by auto
next
  case (Cons img imgs)
  from Cons.prems obtain p pres' m metas' where
    pm: "pres = p # pres'" "metas = m # metas'"
    by (cases pres; cases metas) simp_all
  with Cons.prems have hd: "preprocess_image env img = Some (p, m)"
    and tl: "map (preprocess_image env) imgs = map Some (zip pres' metas')" "length pres' = length metas'"
    by simp_all
  from Cons.IH [OF tl, of "ps @ [p]" "ms @ [m]" "record_call (PreprocessImage img) st"] hd pm
  show ?case by (simp add: record_call_def)
qed

lemma postprocess_loop_ok:
  "map (\<lambda>(t, m). postprocess_predictions env t m) zs = map Some rs \<Longrightarrow>
   postprocess_loop env (map (\<lambda>(t, m). (Some t, m)) zs) acc st =
     (Some (acc @ rs), st\<lparr>calls := calls st @ map (\<lambda>(t, m). PostprocessPredictions t m) zs\<rparr>)"
proof (induction zs arbitrary: rs acc st)
  case Nil
  then show ?case by simp
next
  case (Cons z zs)
  obtain t m where z: "z = (t, m)" by (cases z)
  from Cons.prems obtain r rs' where rs: "rs = r # rs'" by (cases rs) simp_all
  with Cons.prems z have hd: "postprocess_predictions env t m = Some r"
    and tl: "map (\<lambda>(t, m). postprocess_predictions env t m) zs = map Some rs'"
    by simp_all
  from Cons.IH [OF tl, of "acc @ [r]" "record_call (PostprocessPredictions t m) st"] hd z rs
  show ?case by (simp add: record_call_def)
qed

lemma decode_or_empty:
  "map (\<lambda>d. if d \<noteq> None then d else Some (zeros [0, 6] float32)) decoded = map Some (map or_empty decoded)"
  by (induction decoded) auto

lemma zip_map_Some: "zip (map Some ts) ms = map (\<lambda>(t, m). (Some t, m)) (zip ts ms)"
  by (simp add: zip_map1)

text \<open>
  Claim C7.  When the post-prediction callback returns a list, \<open>_decode_model_output\<close>
  returns a list of the same length in which every entry \<open>None\<close> of the callback's list
  has become the \<open>float32\<close> tensor of shape \<open>(0, 6)\<close>, which has no elements, and
  every other entry is the callback's entry itself; no entry of the returned list is
  \<open>None\<close>.
\<close>

theorem decode_model_output_replaces_None:
  assumes "post_prediction_callback env out (device st) = Some decoded"
  shows "\<exists>res. fst (decode_model_output env out st) = Some res \<and> length res = length decoded \<and>
     (\<forall>i<length decoded. res ! i =
        (if decoded ! i = None then Some \<lparr>shape = [0, 6], dtype = float32, data = []\<rparr> else decoded ! i)) \<and>
     None \<notin> set res"
proof -
  let ?res = "map (\<lambda>d. if d \<noteq> None then d else Some (zeros [0, 6] float32)) decoded"
  from assms have "fst (decode_model_output env out st) = Some ?res"
    by (simp add: decode_model_output_def Let_def)
  moreover have "length ?res = length decoded" by simp
  moreover have "\<forall>i<length decoded. ?res ! i =
        (if decoded ! i = None then Some \<lparr>shape = [0, 6], dtype = float32, data = []\<rparr> else decoded ! i)"
    by (simp add: zeros_def)
  moreover have "None \<notin> set ?res" by auto
  ultimately show ?thesis by blast
qed

theorem decode_model_output_replaces_None_witness:
  "post_prediction_callback example_components 2 (device example_state) =
     Some [None, Some \<lparr>shape = [1, 6], dtype = float32, data = [0, 0, 4, 4, 1, 3]\<rparr>] \<and>
   fst (decode_model_output example_components 2 example_state) =
     Some [Some \<lparr>shape = [0, 6], dtype = float32, data = []\<rparr>,
           Some \<lparr>shape = [1, 6], dtype = float32, data = [0, 0, 4, 4, 1, 3]\<rparr>]"
  using decode_model_output_replaces_None [of example_components 2 example_state
      "[None, Some \<lparr>shape = [1, 6], dtype = float32, data = [0, 0, 4, 4, 1, 3]\<rparr>]"]
  by (simp add: decode_model_output_def zeros_def Let_def)

text \<open>
  Claim C2, as amended.  Suppose no stage raises: \<open>load_images\<close> yields the images,
  \<open>preprocess_image\<close> yields for each image its preprocessed form and its metadata, the
  preprocessed images stack to one batch, the model returns on the batch, the callback
  returns a list, and \<open>postprocess_predictions\<close> returns on each decoded prediction with
  the metadata at the same position.  Then \<open>DetectionPipeline.__call__\<close> returns the
  loaded images and the postprocessed predictions, and the calls it makes are exactly
  these, in this order: the model is moved to the device; \<open>load_images\<close> once;
  \<open>preprocess_image\<close> once per image; \<open>model.eval()\<close>, the model once, on the batch of
  all preprocessed images, the callback on the model's output, and \<open>model.train\<close> with
  the saved mode; \<open>postprocess_predictions\<close> once for every position that has both a
  decoded prediction and an image, on that prediction and the metadata recorded for that
  image.  The list of images has one entry per loaded image.  The list of predictions has
  one entry per position that has both a decoded prediction and an image, in input order:
  as many as the shorter of the callback's list and the list of images, hence one per
  image exactly when the callback returns at least one entry per image.
\<close>

theorem detection_pipeline_four_stages:
  assumes load: "load_images env inp = Some imgs"
    and pre: "map (preprocess_image env) imgs = map Some (zip pres metas)" "length pres = length metas"
    and stack: "np_array pres = Some array"
    and fwd: "forward env (model_eval env (model st)) (device st) False (torch_Tensor array, device st) = Some out"
    and cb: "post_prediction_callback env out (device st) = Some decoded"
    and post: "map (\<lambda>(d, m). postprocess_predictions env (or_empty d) m) (zip decoded metas) = map Some results"
  shows "\<exists>st'. DetectionPipeline_call env names inp st =
            (Some \<lparr>images = imgs, predictions = results, class_names = names\<rparr>, st') \<and>
          calls st' = calls st @ [ModelTo (device st), LoadImages inp] @ map PreprocessImage imgs @
            [ModelEval,
             ModelCall (model_eval env (model st)) (device st) False (torch_Tensor array) (device st),
             PostPredictionCallback out (device st),
             ModelTrain (model_training env (model st))] @
            map (\<lambda>(d, m). PostprocessPredictions (or_empty d) m) (zip decoded metas) \<and>
          length metas = length imgs \<and>
          length results = min (length decoded) (length imgs) \<and>
          (length imgs \<le> length decoded \<longleftrightarrow> length results = length imgs)"
proof -
  let ?sm = "model_training env (model st)"
  let ?st0 = "record_call (LoadImages inp) ((record_call (ModelTo (device st)) st)\<lparr>model_device := device st\<rparr>)"
  let ?st1 = "?st0\<lparr>calls := calls ?st0 @ map PreprocessImage imgs\<rparr>"
  have p1: "preprocess_loop env imgs [] [] ?st0 = (Some (pres, metas), ?st1)"
    using preprocess_loop_ok [OF pre, of "[]" "[]" ?st0] by simp
  let ?st2 = "(record_call ModelEval ?st1)\<lparr>model := model_eval env (model st), grad_enabled := False\<rparr>"
  let ?st3 = "record_call (PostPredictionCallback out (device st))
                (record_call (ModelCall (model_eval env (model st)) (device st) False (torch_Tensor array) (device st)) ?st2)"
  have p2: "predict env pres ?st2 = (Some (map Some (map or_empty decoded)), ?st3)"
    using stack fwd cb unfolding decode_or_empty [symmetric]
    by (simp add: predict_def Let_def decode_model_output_def)
  let ?st4 = "(record_call (ModelTrain ?sm) (?st3\<lparr>grad_enabled := grad_enabled st\<rparr>))
                \<lparr>model := model_train env ?sm (model_eval env (model st))\<rparr>"
  have p3: "eval_mode env (predict env pres) ?st1 = (Some (map Some (map or_empty decoded)), ?st4)"
    using p2 by (simp add: eval_mode_def Let_def)
  let ?zs = "zip (map or_empty decoded) metas"
  have post': "map (\<lambda>(t, m). postprocess_predictions env t m) ?zs = map Some results"
    using post by (simp add: zip_map1 case_prod_unfold comp_def)
  let ?st5 = "?st4\<lparr>calls := calls ?st4 @ map (\<lambda>(t, m). PostprocessPredictions t m) ?zs\<rparr>"
  have p4: "postprocess_loop env (zip (map Some (map or_empty decoded)) metas) [] ?st4 = (Some results, ?st5)"
    unfolding zip_map_Some using postprocess_loop_ok [OF post', of "[]" ?st4]
    by (simp only: append_Nil)
  have r: "run env inp st = (Some (imgs, results), ?st5)"
    using load p1 p3 p4 by (simp add: run_def Let_def)
  have lm: "length metas = length imgs"
    using arg_cong [OF pre(1), of length] pre(2) by simp
  have lr: "length results = min (length decoded) (length imgs)"
    using arg_cong [OF post, of length] lm by simp
  have c: "calls ?st5 = calls st @ [ModelTo (device st), LoadImages inp] @ map PreprocessImage imgs @
            [ModelEval,
             ModelCall (model_eval env (model st)) (device st) False (torch_Tensor array) (device st),
             PostPredictionCallback out (device st),
             ModelTrain ?sm] @
            map (\<lambda>(d, m). PostprocessPredictions (or_empty d) m) (zip decoded metas)"
    by (simp add: zip_map1 case_prod_unfold comp_def)
  from r have "DetectionPipeline_call env names inp st =
            (Some \<lparr>images = imgs, predictions = results, class_names = names\<rparr>, ?st5)"
    by (simp add: DetectionPipeline_call_def)
  moreover from lr have "length imgs \<le> length decoded \<longleftrightarrow> length results = length imgs"
    by auto
  ultimately show ?thesis using c lr lm by blast
qed

theorem detection_pipeline_four_stages_witness:
  "load_images example_components [10, 20] = Some [10, 20] \<and>
   map (preprocess_image example_components) [10, 20] =
     map Some (zip [\<lparr>shape = [1], dtype = float64, data = [11]\<rparr>, \<lparr>shape = [1], dtype = float64, data = [21]\<rparr>]
                   [20, 40]) \<and>
   np_array [\<lparr>shape = [1], dtype = float64, data = [11]\<rparr>, \<lparr>shape = [1], dtype = float64, data = [21]\<rparr>] =
     Some \<lparr>shape = [2, 1], dtype = float64, data = [11, 21]\<rparr> \<and>
   fst (DetectionPipeline_call example_components [''person''] [10, 20] example_state) =
     Some \<lparr>images = [10, 20], predictions = [([0, 6], 20), ([1, 6], 40)], class_names = [''person'']\<rparr> \<and>
   calls (snd (DetectionPipeline_call example_components [''person''] [10, 20] example_state)) =
     [ModelTo 1, LoadImages [10, 20], PreprocessImage 10, PreprocessImage 20,
      ModelEval,
      ModelCall False 1 False \<lparr>shape = [2, 1], dtype = float32, data = [11, 21]\<rparr> 1,
      PostPredictionCallback 2 1,
      ModelTrain True,
      PostprocessPredictions \<lparr>shape = [0, 6], dtype = float32, data = []\<rparr> 20,
      PostprocessPredictions \<lparr>shape = [1, 6], dtype = float32, data = [0, 0, 4, 4, 1, 3]\<rparr> 40]"
proof -
  let ?pres = "[\<lparr>shape = [1], dtype = float64, data = [11]\<rparr>, \<lparr>shape = [1], dtype = float64, data = [21]\<rparr>]"
  let ?arr = "\<lparr>shape = [2, 1], dtype = float64, data = [11, 21]\<rparr>"
  have h: "load_images example_components [10, 20] = Some [10, 20]"
    "map (preprocess_image example_components) [10, 20] = map Some (zip ?pres [20, 40])"
    "length ?pres = length [20, 40 :: nat]"
    "np_array ?pres = Some ?arr"
    "forward example_components (model_eval example_components (model example_state)) (device example_state)
       False (torch_Tensor ?arr, device example_state) = Some 2"
    "post_prediction_callback example_components 2 (device example_state) =
       Some [None, Some \<lparr>shape = [1, 6], dtype = float32, data = [0, 0, 4, 4, 1, 3]\<rparr>]"
    "map (\<lambda>(d, m). postprocess_predictions example_components (or_empty d) m)
       (zip [None, Some \<lparr>shape = [1, 6], dtype = float32, data = [0, 0, 4, 4, 1, 3]\<rparr>] [20, 40]) =
     map Some [([0, 6], 20), ([1, 6], 40)]"
    by (simp_all add: zeros_def np_array_def torch_Tensor_def)
  from detection_pipeline_four_stages [OF h, of "[''person'']"] h
  show ?thesis by (auto simp: zeros_def torch_Tensor_def)
qed

text \<open>
  Claim C2 with one prediction per input image whatever the callback returns fails: where
  the callback returns fewer entries than there are images, \<open>zip\<close> stops at the
  shorter list, and two images come back with one prediction.
\<close>

theorem detection_pipeline_four_stages_counterexample:
  "fst (DetectionPipeline_call short_components [''person''] [10, 20] example_state) =
     Some \<lparr>images = [10, 20], predictions = [([0, 6], 20)], class_names = [''person'']\<rparr>"
  by (simp add: DetectionPipeline_call_def run_def eval_mode_def predict_def decode_model_output_def
      np_array_def torch_Tensor_def zeros_def Let_def)

lemma run_device: "device (snd (run env inp st)) = device st"
  using run_effect [of env inp st] by auto

lemma run_many_device: "device (run_many env inps st) = device st"
  unfolding run_many_def by (induction inps arbitrary: st) (simp_all add: run_device)

text \<open>
  Claim C6.  The field \<open>device\<close> of a pipeline is the device it was constructed with,
  after any number of calls.  Every call of \<open>_run\<close>, wherever the model is when the call
  begins, first moves the model to that device and moves it nowhere else afterwards;
  whenever the model is then applied, the model is on that device and so is the batch it
  is applied to; and the model is on that device when the call ends.
\<close>

theorem run_on_pipeline_device:
  "device (run_many env earlier (Pipeline_init m dev grad)) = dev \<and>
   device (snd (run env inp st)) = device st \<and>
   model_device (snd (run env inp st)) = device st \<and>
   (\<exists>new. calls (snd (run env inp st)) = calls st @ ModelTo (device st) # new \<and>
      (\<forall>d. ModelTo d \<notin> set new) \<and>
      (\<forall>m' md g b bd. ModelCall m' md g b bd \<in> set new \<longrightarrow> md = device st \<and> bd = device st))"
proof -
  have d: "device (run_many env earlier (Pipeline_init m dev grad)) = dev"
    by (simp add: run_many_device Pipeline_init_def)
  obtain new m' where e: "snd (run env inp st) =
      st\<lparr>model := m', model_device := device st, calls := calls st @ ModelTo (device st) # new\<rparr>"
    "\<forall>d. ModelTo d \<notin> set new"
    "\<forall>m md g b bd. ModelCall m md g b bd \<in> set new \<longrightarrow>
          m = model_eval env (model st) \<and> md = device st \<and> \<not> g \<and> bd = device st"
    using run_effect [of env inp st] by blast
  from e(1) have "model_device (snd (run env inp st)) = device st"
    "device (snd (run env inp st)) = device st"
    "calls (snd (run env inp st)) = calls st @ ModelTo (device st) # new" by simp_all
  with d e(2,3) show ?thesis by blast
qed

theorem run_on_pipeline_device_witness:
  "model_device example_state = 0 \<and> device example_state = 1 \<and>
   model_device (snd (run example_components [10, 20] example_state)) = 1 \<and>
   calls (snd (run example_components [10, 20] example_state)) =
     calls example_state @
     [ModelTo 1, LoadImages [10, 20], PreprocessImage 10, PreprocessImage 20,
      ModelEval,
      ModelCall False 1 False \<lparr>shape = [2, 1], dtype = float32, data = [11, 21]\<rparr> 1,
      PostPredictionCallback 2 1,
      ModelTrain True,
      PostprocessPredictions \<lparr>shape = [0, 6], dtype = float32, data = []\<rparr> 20,
      PostprocessPredictions \<lparr>shape = [1, 6], dtype = float32, data = [0, 0, 4, 4, 1, 3]\<rparr> 40]"
  using run_on_pipeline_device [of example_components "[]" True 1 True "[10, 20]" example_state]
  by (simp add: run_def eval_mode_def predict_def decode_model_output_def np_array_def torch_Tensor_def
      zeros_def Let_def)






subsection \<open>The detection head\<close>

lemma in_range_Nil [simp]: "in_range [] idx \<longleftrightarrow> idx = []"
  by (simp add: in_range_def)

lemma in_range_Cons [simp]: "in_range (s # ss) (i # idx) \<longleftrightarrow> i < s \<and> in_range ss idx"
  by (simp add: in_range_def)

lemma in_range_Cons_Nil [simp]: "\<not> in_range (s # ss) []"
  by (simp add: in_range_def)

lemma in_range_length: "in_range shp idx \<Longrightarrow> length idx = length shp"
  by (simp add: in_range_def list_all2_lengthD)

lemma in_range_nth: "in_range shp idx \<Longrightarrow> k < length shp \<Longrightarrow> idx ! k < shp ! k"
  by (simp add: in_range_def list_all2_nthD2)

lemma ravel_less: "in_range shp idx \<Longrightarrow> ravel shp idx < prod_list shp"
proof (induction shp arbitrary: idx)
  case Nil
  then show ?case by simp
next
  case (Cons s ss)
  from Cons.prems obtain i rest where idx: "idx = i # rest" by (cases idx) simp_all
  with Cons have r: "ravel ss rest < prod_list ss" and i: "i < s" by simp_all
  have "i * prod_list ss + ravel ss rest < i * prod_list ss + prod_list ss"
    using r by simp
  also have "\<dots> = Suc i * prod_list ss" by simp
  also have "\<dots> \<le> s * prod_list ss"
    using i by (intro mult_le_mono1) simp
  finally show ?case using idx by simp
qed

lemma unravel_ravel: "in_range shp idx \<Longrightarrow> unravel shp (ravel shp idx) = idx"
proof (induction shp arbitrary: idx)
  case Nil
  then show ?case by simp
next
  case (Cons s ss)
  from Cons.prems obtain i rest where idx: "idx = i # rest" by (cases idx) simp_all
  with Cons have r: "ravel ss rest < prod_list ss" and ih: "unravel ss (ravel ss rest) = rest"
    by (simp_all add: ravel_less)
  from r idx show ?case by (simp add: ih)
qed

lemma shape_tabulate [simp]: "shape (tabulate shp dt f) = shp"
  by (simp add: tabulate_def)

lemma dtype_tabulate [simp]: "dtype (tabulate shp dt f) = dt"
  by (simp add: tabulate_def)

lemma wf_tabulate [simp]: "wf (tabulate shp dt f)"
  by (simp add: tabulate_def wf_def)

lemma get_tabulate: "in_range shp idx \<Longrightarrow> get (tabulate shp dt f) idx = f idx"
  by (simp add: get_def tabulate_def ravel_less unravel_ravel)

lemma filter_nonneg: "list_all (\<lambda>d. 0 \<le> d) shp \<Longrightarrow> filter (\<lambda>d. d \<noteq> - 1) shp = shp"
  "list_all (\<lambda>d. 0 \<le> d) shp \<Longrightarrow> filter (\<lambda>d. d = - 1) shp = []"
  "list_all (\<lambda>d. 0 \<le> d) shp \<Longrightarrow> \<not> list_ex (\<lambda>d. d < - 1) shp"
  "list_all (\<lambda>d. 0 \<le> d) shp \<Longrightarrow> map (\<lambda>d. if d = - 1 then x else nat d) shp = map nat shp"
  for shp :: "int list"
  by (induction shp) auto

lemma infer_shape_exact:
  "list_all (\<lambda>d. 0 \<le> d) shp \<Longrightarrow> prod_list (map nat shp) = n \<Longrightarrow> infer_shape n shp = Some (map nat shp)"
  by (simp add: infer_shape_def filter_nonneg)

lemma infer_shape_head:
  "list_all (\<lambda>d. 0 \<le> d) rest \<Longrightarrow> prod_list (map nat rest) = k \<Longrightarrow> 0 < k \<Longrightarrow>
   infer_shape (b * k) (- 1 # rest) = Some (b # map nat rest)"
  by (simp add: infer_shape_def filter_nonneg)

lemma reshape_head:
  "list_all (\<lambda>d. 0 \<le> d) rest \<Longrightarrow> prod_list (map nat rest) = k \<Longrightarrow> 0 < k \<Longrightarrow>
   length (data t) = b * k \<Longrightarrow> reshape t (- 1 # rest) = Some (t\<lparr>shape := b # map nat rest\<rparr>)"
  by (simp add: reshape_def infer_shape_head)

lemma reshape_exact:
  "list_all (\<lambda>d. 0 \<le> d) shp \<Longrightarrow> prod_list (map nat shp) = length (data t) \<Longrightarrow>
   reshape t shp = Some (t\<lparr>shape := map nat shp\<rparr>)"
  by (simp add: reshape_def infer_shape_exact)

lemma permute_0231:
  "length (shape t) = 4 \<Longrightarrow>
   permute t [0, 2, 3, 1] =
     Some (tabulate [shape t ! 0, shape t ! 2, shape t ! 3, shape t ! 1] (dtype t)
            (\<lambda>idx. get t [idx ! 0, idx ! 3, idx ! 1, idx ! 2]))"
  by (simp add: permute_def upt_conv_Cons numeral_2_eq_2 numeral_3_eq_3)


lemma linspace_data: "data (linspace 0 (real R) (R + 1)) = map real [0..<R + 1]"
  by (auto simp: linspace_def)

lemma proj_reshape:
  "reshape (linspace 0 (real R) (R + 1)) [1, int (R + 1), 1, 1] =
     Some \<lparr>shape = [1, R + 1, 1, 1], dtype = float32, data = map real [0..<R + 1]\<rparr>"
proof -
  have "reshape (linspace 0 (real R) (R + 1)) [1, int (R + 1), 1, 1] =
      Some ((linspace 0 (real R) (R + 1))\<lparr>shape := map nat [1, int (R + 1), 1, 1]\<rparr>)"
    by (rule reshape_exact) (simp_all add: linspace_def)
  also have "(linspace 0 (real R) (R + 1))\<lparr>shape := map nat [1, int (R + 1), 1, 1]\<rparr> =
      \<lparr>shape = [1, R + 1, 1, 1], dtype = float32, data = map real [0..<R + 1]\<rparr>"
    using linspace_data [of R] by (simp add: linspace_def)
  finally show ?thesis .
qed

lemma init_weights_fields:
  "init_weights g self = Some self' \<Longrightarrow> proj_conv self' = proj_conv self \<and> reg_max self' = reg_max self \<and>
     num_classes self' = num_classes self"
  by (auto simp: init_weights_def split: if_splits option.splits)

lemma cache_anchors_fields:
  "cache_anchors g sz self = Some self' \<Longrightarrow> proj_conv self' = proj_conv self \<and> reg_max self' = reg_max self \<and>
     num_classes self' = num_classes self"
  by (auto simp: cache_anchors_def Let_def split: option.splits)

lemma cache_anchors_many_fields:
  "cache_anchors_many g sizes self = Some self' \<Longrightarrow> proj_conv self' = proj_conv self \<and> reg_max self' = reg_max self \<and>
     num_classes self' = num_classes self"
proof (induction sizes arbitrary: self)
  case Nil
  then show ?case by simp
next
  case (Cons sz sizes)
  then show ?case by (auto split: option.splits dest!: cache_anchors_fields)
qed

lemma NDFLHeads_init_fields:
  "NDFLHeads_init g nc strides sc off R es = Some self \<Longrightarrow>
   proj_conv self = \<lparr>shape = [1, R + 1, 1, 1], dtype = float32, data = map real [0..<R + 1]\<rparr> \<and>
   reg_max self = R \<and> num_classes self = nc"
  unfolding NDFLHeads_init_def proj_reshape by (auto dest!: init_weights_fields)

lemma get_proj:
  "j < R + 1 \<Longrightarrow> get \<lparr>shape = [1, R + 1, 1, 1], dtype = float32, data = map real [0..<R + 1]\<rparr> [0, j, 0, 0] = real j"
  by (simp add: get_def del: upt_Suc)

lemma get_reshaped_distribution:
  assumes "shape t = [B, 4 * n, H, W]"
  shows "get (t\<lparr>shape := [B, 4, n, H * W]\<rparr>) [b, s, j, a] = get t [b, s * n + j, a div W, a mod W]"
proof -
  have "ravel [B, 4, n, H * W] [b, s, j, a] = ravel [B, 4 * n, H, W] [b, s * n + j, a div W, a mod W]"
    by (simp add: algebra_simps)
  then show ?thesis using assms by (simp add: get_def del: ravel.simps)
qed

lemma get_squeezed:
  "shape t = [B, 1, M, 4] \<Longrightarrow> get (t\<lparr>shape := [B, M, 4]\<rparr>) [b, a, s] = get t [b, 0, a, s]"
  by (simp add: get_def)

lemma expected_bin_sum:
  "(\<Sum>c\<leftarrow>[0..<n]. exp (x c) / (\<Sum>k\<leftarrow>[0..<n]. exp (x k)) * real c) = expected_bin (map x [0..<n])"
proof -
  have "(\<Sum>j\<leftarrow>[0..<n]. real j * softmax_list (map x [0..<n]) ! j) =
        (\<Sum>c\<leftarrow>[0..<n]. exp (x c) / (\<Sum>k\<leftarrow>[0..<n]. exp (x k)) * real c)"
    by (rule arg_cong [where f = sum_list], rule map_cong)
       (simp_all add: softmax_list_def comp_def)
  then show ?thesis by (simp add: expected_bin_def)
qed

lemma sum_list_upt_one: "(\<Sum>k\<leftarrow>[0..<Suc 0]. f k) = f 0"
  by simp

lemma sum_list_upt_cong:
  "(\<And>k. k < n \<Longrightarrow> f k = g k) \<Longrightarrow> (\<Sum>k\<leftarrow>[0..<n]. f k) = (\<Sum>k\<leftarrow>[0..<n]. g k)"
  by (rule arg_cong [where f = sum_list], rule map_cong) simp_all

lemma reduce_distribution_get:
  assumes wf: "wf t" and shp: "shape t = [B, 4 * (R + 1), H, W]" and pos: "0 < H" "0 < W"
    and proj: "proj_conv self = \<lparr>shape = [1, R + 1, 1, 1], dtype = float32, data = map real [0..<R + 1]\<rparr>"
    and rm: "reg_max self = R"
  shows "\<exists>out. reduce_distribution self (H * W) t = Some out \<and> shape out = [B, H * W, 4] \<and> wf out \<and>
          (\<forall>b<B. \<forall>a<H * W. \<forall>s<4. get out [b, a, s] =
              expected_bin (map (\<lambda>j. get t [b, s * (R + 1) + j, a div W, a mod W]) [0..<R + 1]))"
proof -
  let ?n = "R + 1" and ?M = "H * W"
  let ?P = "\<lparr>shape = [1, ?n, 1, 1], dtype = float32, data = map real [0..<?n]\<rparr>"
  let ?r1 = "t\<lparr>shape := [B, 4, ?n, ?M]\<rparr>"
  let ?r2 = "tabulate [B, ?n, ?M, 4] (dtype t) (\<lambda>idx. get ?r1 [idx ! 0, idx ! 3, idx ! 1, idx ! 2])"
  let ?r3 = "tabulate [B, ?n, ?M, 4] (dtype t)
               (\<lambda>idx. exp (get ?r2 idx) / (\<Sum>k\<leftarrow>[0..<?n]. exp (get ?r2 (idx[1 := k]))))"
  let ?r4 = "tabulate [B, 1, ?M, 4] (dtype t)
               (\<lambda>idx. \<Sum>c\<leftarrow>[0..<?n]. \<Sum>ky\<leftarrow>[0..<1]. \<Sum>kx\<leftarrow>[0..<1].
                   get ?r3 [idx ! 0, c, idx ! 2 + ky, idx ! 3 + kx] * get ?P [idx ! 1, c, ky, kx])"
  let ?r5 = "?r4\<lparr>shape := [B, ?M, 4]\<rparr>"
  have M: "0 < ?M" using pos by simp
  have len: "length (data t) = B * (4 * ?n * ?M)"
    using wf shp by (simp add: wf_def algebra_simps)
  have mn: "map nat [4, int ?n, int ?M] = [4, ?n, ?M]"
    by (simp del: of_nat_add of_nat_mult of_nat_Suc)
  have "reshape t (- 1 # [4, int ?n, int ?M]) = Some (t\<lparr>shape := B # map nat [4, int ?n, int ?M]\<rparr>)"
  proof (rule reshape_head [where k = "4 * ?n * ?M"])
    show "list_all (\<lambda>d. 0 \<le> d) [4, int ?n, int ?M]" by simp
    show "prod_list (map nat [4, int ?n, int ?M]) = 4 * ?n * ?M" unfolding mn by (simp add: algebra_simps)
    show "0 < 4 * ?n * ?M" using M by simp
    show "length (data t) = B * (4 * ?n * ?M)" by (rule len)
  qed
  then have s1: "reshape t [- 1, 4, int ?n, int ?M] = Some ?r1"
    unfolding mn .
  have s2: "permute ?r1 [0, 2, 3, 1] = Some ?r2"
    using permute_0231 [of ?r1] by simp
  have s3: "softmax ?r2 1 = Some ?r3"
    by (simp add: softmax_def del: upt_Suc)
  have s4: "conv2d ?r3 ?P = Some ?r4"
    using M by (simp add: conv2d_def del: upt_Suc)
  have s5: "squeeze ?r4 1 = Some ?r5"
    by (simp add: squeeze_def)
  have red: "reduce_distribution self ?M t = Some ?r5"
    unfolding reduce_distribution_def rm proj
    by (simp only: s1 s2 s3 s4 s5 bind.bind_lunit)
  have wf5: "wf ?r5"
    by (simp add: wf_def tabulate_def)
  have elem: "get ?r5 [b, a, s] =
      expected_bin (map (\<lambda>j. get t [b, s * ?n + j, a div W, a mod W]) [0..<?n])"
    if b: "b < B" and a: "a < ?M" and s: "s < 4" for b a s
  proof -
    have g2: "get ?r2 [b, k, a, s] = get t [b, s * ?n + k, a div W, a mod W]" if "k < ?n" for k
    proof -
      have "get ?r2 [b, k, a, s] = get ?r1 [b, s, k, a]"
        using that b a s by (simp add: get_tabulate)
      also have "\<dots> = get t [b, s * ?n + k, a div W, a mod W]"
        by (rule get_reshaped_distribution [OF shp])
      finally show ?thesis .
    qed
    have g3: "get ?r3 [b, c, a, s] =
        exp (get t [b, s * ?n + c, a div W, a mod W]) /
        (\<Sum>k\<leftarrow>[0..<?n]. exp (get t [b, s * ?n + k, a div W, a mod W]))" if c: "c < ?n" for c
    proof -
      have "get ?r3 [b, c, a, s] = exp (get ?r2 [b, c, a, s]) / (\<Sum>k\<leftarrow>[0..<?n]. exp (get ?r2 [b, k, a, s]))"
        using c b a s by (simp add: get_tabulate del: upt_Suc)
      also have "(\<Sum>k\<leftarrow>[0..<?n]. exp (get ?r2 [b, k, a, s])) =
          (\<Sum>k\<leftarrow>[0..<?n]. exp (get t [b, s * ?n + k, a div W, a mod W]))"
        by (rule sum_list_upt_cong) (simp only: g2)
      finally show ?thesis by (simp only: g2 [OF c])
    qed
    have "get ?r5 [b, a, s] = get ?r4 [b, 0, a, s]"
      by (rule get_squeezed) simp
    also have "\<dots> = (\<Sum>c\<leftarrow>[0..<?n]. get ?r3 [b, c, a, s] * get ?P [0, c, 0, 0])"
      using b a s by (simp add: get_tabulate sum_list_upt_one del: upt_Suc)
    also have "\<dots> = (\<Sum>c\<leftarrow>[0..<?n].
        exp (get t [b, s * ?n + c, a div W, a mod W]) /
        (\<Sum>k\<leftarrow>[0..<?n]. exp (get t [b, s * ?n + k, a div W, a mod W])) * real c)"
      by (rule sum_list_upt_cong) (simp only: g3 get_proj)
    also have "\<dots> = expected_bin (map (\<lambda>j. get t [b, s * ?n + j, a div W, a mod W]) [0..<?n])"
      by (rule expected_bin_sum)
    finally show ?thesis .
  qed
  from red wf5 elem show ?thesis by (intro exI [of _ ?r5]) simp
qed










lemma nth_flat_distributions:
  "length regs = length feats \<Longrightarrow> k < length feats \<Longrightarrow>
   shape (flat_distributions B R regs feats ! k) = [B, anchors_of (feats ! k), 4 * (R + 1)]"
  by (simp add: flat_distributions_def)

lemma length_flat_distributions:
  "length regs = length feats \<Longrightarrow> length (flat_distributions B R regs feats) = length feats"
  by (simp add: flat_distributions_def)



lemma sum_list_nth_cong:
  "length xs = length ys \<Longrightarrow> (\<And>k. k < length ys \<Longrightarrow> f (xs ! k) = g (ys ! k)) \<Longrightarrow>
   map f xs = map g ys"
  by (simp add: list_eq_iff_nth_eq)


lemma reachable_fields:
  assumes "NDFLHeads_init g nc strides sc off R es = Some self0"
    and "cache_anchors_many g sizes self0 = Some self"
  shows "proj_conv self = \<lparr>shape = [1, R + 1, 1, 1], dtype = float32, data = map real [0..<R + 1]\<rparr>"
    and "reg_max self = R" and "num_classes self = nc"
  using NDFLHeads_init_fields [OF assms(1)] cache_anchors_many_fields [OF assms(2)] by simp_all

text \<open>
  Claim C1.  Take a head as constructed, after any number of calls of \<open>cache_anchors\<close>.
  Its buffer \<open>proj_conv\<close> is \<open>linspace(0, reg_max, reg_max + 1)\<close> under the shape
  \<open>[1, reg_max + 1, 1, 1]\<close>, that is the weights \<open>0, 1, ..., reg_max\<close>; it is set at
  construction and no operation of the head assigns it.  For a regression output of shape
  \<open>[B, 4 * (reg_max + 1), H, W]\<close> the reduction in \<open>forward_eval\<close> succeeds and yields
  a tensor of shape \<open>[B, H * W, 4]\<close>, four distances per anchor.  The distance of side
  \<open>s\<close> at anchor \<open>a\<close> (the position \<open>a div W, a mod W\<close>) of batch element \<open>b\<close> is
  the expected bin index under the softmax of the \<open>reg_max + 1\<close> logits of that side:
  the sum over \<open>j\<close> of \<open>j\<close> times the softmax at \<open>j\<close>.  Tensor elements are real
  numbers here.
\<close>

theorem dfl_expected_bin:
  assumes init: "NDFLHeads_init generate_anchors n_classes strides cell_scale cell_offset R esize = Some self0"
    and cached: "cache_anchors_many generate_anchors sizes self0 = Some self"
    and wf: "wf reg_distri" and shp: "shape reg_distri = [B, 4 * (R + 1), H, W]"
    and pos: "0 < H" "0 < W"
  shows "proj_conv self = (linspace 0 (real R) (R + 1))\<lparr>shape := [1, R + 1, 1, 1]\<rparr> \<and>
         data (proj_conv self) = map real [0..<R + 1] \<and>
         (\<exists>out. reduce_distribution self (H * W) reg_distri = Some out \<and> shape out = [B, H * W, 4] \<and>
            (\<forall>b<B. \<forall>a<H * W. \<forall>s<4. get out [b, a, s] =
               expected_bin (map (\<lambda>j. get reg_distri [b, s * (R + 1) + j, a div W, a mod W]) [0..<R + 1])))"
proof -
  note f = reachable_fields [OF init cached]
  have p: "proj_conv self = \<lparr>shape = [1, reg_max self + 1, 1, 1], dtype = float32,
                              data = map real [0..<reg_max self + 1]\<rparr>"
    using f(1,2) by simp
  have 1: "proj_conv self = (linspace 0 (real R) (R + 1))\<lparr>shape := [1, R + 1, 1, 1]\<rparr>"
    unfolding f(1) using linspace_data [of R] by (simp add: linspace_def)
  have 2: "data (proj_conv self) = map real [0..<R + 1]"
    unfolding f(1) by simp
  from reduce_distribution_get [OF wf shp pos f(1) f(2)] 1 2 show ?thesis by blast
qed

theorem dfl_expected_bin_witness:
  "\<exists>self. NDFLHeads_init (\<lambda>s f. None) 80 [8, 16, 32] 5 (1 / 2) 1 None = Some self \<and>
      cache_anchors_many (\<lambda>s f. None) [] self = Some self \<and>
      wf \<lparr>shape = [1, 8, 1, 1], dtype = float32, data = [0, 0, 0, 0, 0, 0, 0, 0]\<rparr> \<and>
      data (proj_conv self) = [0, 1] \<and>
      (\<exists>out. reduce_distribution self (1 * 1)
                \<lparr>shape = [1, 8, 1, 1], dtype = float32, data = [0, 0, 0, 0, 0, 0, 0, 0]\<rparr> = Some out \<and>
             shape out = [1, 1, 4] \<and> get out [0, 0, 0] = 1 / 2)"
proof -
  let ?t = "\<lparr>shape = [1, 8, 1, 1], dtype = float32, data = [0, 0, 0, 0, 0, 0, 0, 0]\<rparr>"
  obtain self where init: "NDFLHeads_init (\<lambda>s f. None) 80 [8, 16, 32] 5 (1 / 2) 1 None = Some self"
    unfolding NDFLHeads_init_def proj_reshape by (simp add: init_weights_def)
  have c: "cache_anchors_many (\<lambda>s f. None) [] self = Some self" by simp
  have w: "wf ?t" by (simp add: wf_def)
  have s: "shape ?t = [1, 4 * (1 + 1), 1, 1]" by simp
  from dfl_expected_bin [OF init c w s, of ] obtain out where
    d: "data (proj_conv self) = map real [0..<1 + 1]"
    and o: "reduce_distribution self (1 * 1) ?t = Some out" "shape out = [1, 1 * 1, 4]"
      "\<forall>b<1. \<forall>a<1 * 1. \<forall>s<4. get out [b, a, s] =
               expected_bin (map (\<lambda>j. get ?t [b, s * (1 + 1) + j, a div 1, a mod 1]) [0..<1 + 1])"
    by auto
  from o(3) have "get out [0, 0, 0] = expected_bin (map (\<lambda>j. get ?t [0, 0 * (1 + 1) + j, 0 div 1, 0 mod 1]) [0..<1 + 1])"
    by simp
  also have "\<dots> = 1 / 2"
    by (simp add: expected_bin_def softmax_list_def get_def)
  finally have g: "get out [0, 0, 0] = 1 / 2" .
  from init c w d o(1,2) g show ?thesis by (intro exI [of _ self]) (simp add: upt_conv_Cons)
qed

























end
